theory Spec2Isabelle
  imports Complex_Main
begin

section \<open>JavaScript numbers and arrays\<close>

text \<open>
  The driver is TypeScript; every quantity it handles (a brightness, a temperature, a
  percentage, a product id, a byte of a frame) has the type \<open>number\<close>. A \<open>number\<close> is
  modelled as an exact rational or one of the three non-finite values. Every finite
  double is a rational, so the checks of the driver (\<open>Number.isInteger\<close>, \<open><\<close>, \<open>>\<close>,
  \<open>===\<close>, \<open>Array.prototype.includes\<close>) are exactly the ones below. The rounding of
  IEEE arithmetic is not modelled: sums, products and quotients are exact.
\<close>

datatype number = Number rat | Infinity | NegInfinity | NaN

text \<open>\<open>Number.isInteger\<close>.\<close>

fun isInteger :: "number \<Rightarrow> bool" where
  "isInteger (Number r) = (of_int \<lfloor>r\<rfloor> = r)"
| "isInteger Infinity = False"
| "isInteger NegInfinity = False"
| "isInteger NaN = False"

text \<open>\<open>a < b\<close> and \<open>a > b\<close> on numbers: every comparison with \<open>NaN\<close> is false.\<close>

fun js_less :: "number \<Rightarrow> number \<Rightarrow> bool" where
  "js_less NaN b = False"
| "js_less a NaN = False"
| "js_less (Number a) (Number b) = (a < b)"
| "js_less a NegInfinity = False"
| "js_less NegInfinity b = True"
| "js_less Infinity b = False"
| "js_less (Number a) Infinity = True"

definition js_greater :: "number \<Rightarrow> number \<Rightarrow> bool" where
  "js_greater a b = js_less b a"

text \<open>
  Reading an array at an index: \<open>xs[i]\<close> is \<open>undefined\<close> (here \<open>None\<close>) when \<open>i\<close> is
  not an index of \<open>xs\<close>.
\<close>

definition index :: "'a list \<Rightarrow> nat \<Rightarrow> 'a option" where
  "index xs i = (if i < length xs then Some (xs ! i) else None)"

text \<open>
  \<open>a === b\<close> on values that are a number or \<open>undefined\<close>: \<open>NaN\<close> equals nothing, not
  even itself.
\<close>

fun strict_equals :: "number option \<Rightarrow> number option \<Rightarrow> bool" where
  "strict_equals None None = True"
| "strict_equals (Some a) (Some b) = (a \<noteq> NaN \<and> a = b)"
| "strict_equals None (Some b) = False"
| "strict_equals (Some a) None = False"

text \<open>\<open>xs.includes(x)\<close> compares with SameValueZero, under which \<open>NaN\<close> equals itself.\<close>

definition array_includes :: "number list \<Rightarrow> number \<Rightarrow> bool" where
  "array_includes xs x = (x \<in> set xs)"

text \<open>Arithmetic: \<open>undefined\<close> converts to \<open>NaN\<close>, and \<open>NaN\<close> is absorbing.\<close>

fun toNumber :: "number option \<Rightarrow> number" where
  "toNumber None = NaN"
| "toNumber (Some a) = a"

fun js_sign :: "number \<Rightarrow> rat" where
  "js_sign (Number r) = sgn r"
| "js_sign Infinity = 1"
| "js_sign NegInfinity = - 1"
| "js_sign NaN = 0"

definition js_infinite :: "rat \<Rightarrow> number" where
  "js_infinite s = (if s = 0 then NaN else if 0 < s then Infinity else NegInfinity)"

fun js_negate :: "number \<Rightarrow> number" where
  "js_negate (Number r) = Number (- r)"
| "js_negate Infinity = NegInfinity"
| "js_negate NegInfinity = Infinity"
| "js_negate NaN = NaN"

fun js_add :: "number \<Rightarrow> number \<Rightarrow> number" where
  "js_add NaN b = NaN"
| "js_add a NaN = NaN"
| "js_add (Number a) (Number b) = Number (a + b)"
| "js_add Infinity NegInfinity = NaN"
| "js_add NegInfinity Infinity = NaN"
| "js_add Infinity b = Infinity"
| "js_add NegInfinity b = NegInfinity"
| "js_add (Number a) b = b"

definition js_sub :: "number \<Rightarrow> number \<Rightarrow> number" where
  "js_sub a b = js_add a (js_negate b)"

fun js_mul :: "number \<Rightarrow> number \<Rightarrow> number" where
  "js_mul NaN b = NaN"
| "js_mul a NaN = NaN"
| "js_mul (Number a) (Number b) = Number (a * b)"
| "js_mul a b = js_infinite (js_sign a * js_sign b)"

fun js_div :: "number \<Rightarrow> number \<Rightarrow> number" where
  "js_div NaN b = NaN"
| "js_div a NaN = NaN"
| "js_div (Number a) (Number b) = (if b = 0 then js_infinite (sgn a) else Number (a / b))"
| "js_div (Number a) b = Number 0"
| "js_div a (Number b) = js_infinite (js_sign a * (if b < 0 then - 1 else 1))"
| "js_div a b = NaN"

section \<open>The helpers of \<open>./utils\<close>\<close>

text \<open>
  \<open>driver.ts\<close> imports \<open>integerToBytes\<close>, \<open>multiplesWithinRange\<close>, \<open>padRight\<close> and
  \<open>percentageWithinRange\<close> from \<open>./utils\<close>, a module whose source is missing. The four
  definitions of this section follow the specification's description of them.
\<close>

datatype error =
    TemperatureNotInteger
    \<comment> \<open>\<open>'Provided temperature must be an integer'\<close>\<close>
  | TemperatureNotAllowed "number option" "number option"
    \<comment> \<open>\<open>`Provided temperature must be a multiple of 100 between ${minimumTemperature}
        and ${maximumTemperature} for this device`\<close>, with the two interpolated values\<close>
  | BrightnessNotInteger
    \<comment> \<open>\<open>'Provided brightness must be an integer'\<close>\<close>
  | BrightnessOutOfRange number number
    \<comment> \<open>\<open>`Provided brightness must be between ${minimumBrightness} and
        ${maximumBrightness} for this device`\<close>, with the two interpolated values\<close>
  | PercentageOutOfRange
    \<comment> \<open>\<open>'Percentage must be between 0 and 100'\<close>\<close>
  | UnknownDeviceType
    \<comment> \<open>\<open>'Unknown device type'\<close>\<close>
  | FrameTooLong
    \<comment> \<open>the failure of the frame encoder on more bytes than the frame holds\<close>

text \<open>
  Modelled from the spec: \<open>padRight\<close> of \<open>./utils\<close> is missing. The specification's
  frame encoder right-pads the header and parameters with zero bytes to the frame
  length and fails when they exceed it.
\<close>

definition padRight :: "'a list \<Rightarrow> nat \<Rightarrow> 'a \<Rightarrow> error + 'a list" where
  "padRight xs n padder =
     (if n < length xs then Inl FrameTooLong
      else Inr (xs @ replicate (n - length xs) padder))"

text \<open>
  Modelled from the spec: \<open>integerToBytes\<close> of \<open>./utils\<close> is missing. The
  specification converts a non-negative integer into its two-byte big-endian
  representation, high byte = integer div 256, low byte = integer mod 256. The
  specification says nothing about other arguments; the model takes the integer part
  of a finite number first and yields \<open>NaN\<close> bytes for a non-finite one.
\<close>

fun integerToBytes :: "number \<Rightarrow> number list" where
  "integerToBytes (Number r) =
     [Number (of_int (\<lfloor>r\<rfloor> div 256)), Number (of_int (\<lfloor>r\<rfloor> mod 256))]"
| "integerToBytes a = [NaN, NaN]"

text \<open>
  Modelled from the spec: \<open>multiplesWithinRange\<close> of \<open>./utils\<close> is missing. Given a
  step, an inclusive lower bound and an inclusive upper bound, the specification
  produces the ascending sequence of all integers in range that are exact multiples
  of the step.
\<close>

definition multiplesWithinRange :: "int \<Rightarrow> int \<Rightarrow> int \<Rightarrow> number list" where
  "multiplesWithinRange step low high =
     map (\<lambda>n. Number (of_int n)) (filter (\<lambda>n. n mod step = 0) [low..high])"

text \<open>
  Modelled from the spec: \<open>percentageWithinRange\<close> of \<open>./utils\<close> is missing. The
  specification scales linearly, \<open>min + (percentage/100) * (max-min)\<close>, and rounds to
  the nearest integer, ties away from zero.
\<close>

fun nearestInteger :: "number \<Rightarrow> number" where
  "nearestInteger (Number r) =
     Number (of_int (if 0 \<le> r then \<lfloor>r + 1 / 2\<rfloor> else \<lceil>r - 1 / 2\<rceil>))"
| "nearestInteger a = a"

definition percentageWithinRange :: "number \<Rightarrow> number \<Rightarrow> number \<Rightarrow> number" where
  "percentageWithinRange percentage startRange endRange =
     nearestInteger
       (js_add startRange
          (js_mul (js_div percentage (Number 100)) (js_sub endRange startRange)))"

section \<open>The capability tables\<close>

datatype DeviceType = LitraGlow | LitraBeam

definition PRODUCT_IDS :: "number list" where
  "PRODUCT_IDS = [Number 0xc900, Number 0xc901, Number 0xb901, Number 0xc903]"

fun MINIMUM_BRIGHTNESS_IN_LUMEN_BY_DEVICE_TYPE :: "DeviceType \<Rightarrow> number" where
  "MINIMUM_BRIGHTNESS_IN_LUMEN_BY_DEVICE_TYPE LitraGlow = Number 20"
| "MINIMUM_BRIGHTNESS_IN_LUMEN_BY_DEVICE_TYPE LitraBeam = Number 30"

fun MAXIMUM_BRIGHTNESS_IN_LUMEN_BY_DEVICE_TYPE :: "DeviceType \<Rightarrow> number" where
  "MAXIMUM_BRIGHTNESS_IN_LUMEN_BY_DEVICE_TYPE LitraGlow = Number 250"
| "MAXIMUM_BRIGHTNESS_IN_LUMEN_BY_DEVICE_TYPE LitraBeam = Number 400"

definition MULTIPLES_OF_100_BETWEEN_2700_AND_6500 :: "number list" where
  "MULTIPLES_OF_100_BETWEEN_2700_AND_6500 = multiplesWithinRange 100 2700 6500"

fun ALLOWED_TEMPERATURES_IN_KELVIN_BY_DEVICE_TYPE :: "DeviceType \<Rightarrow> number list" where
  "ALLOWED_TEMPERATURES_IN_KELVIN_BY_DEVICE_TYPE LitraGlow =
     MULTIPLES_OF_100_BETWEEN_2700_AND_6500"
| "ALLOWED_TEMPERATURES_IN_KELVIN_BY_DEVICE_TYPE LitraBeam =
     MULTIPLES_OF_100_BETWEEN_2700_AND_6500"

section \<open>Devices and the HID handle\<close>

text \<open>
  A \<open>Device\<close> holds a HID handle with the two operations the driver uses, \<open>write\<close> and
  \<open>readSync\<close>. The handle is modelled by the calls made on it so far, oldest first,
  and by the frame the light answers to a \<open>readSync\<close>, which may depend on those
  calls. As in the interface \<open>Device\<close> of the source, \<open>write\<close> accepts its frame and
  \<open>readSync\<close> returns an array: a transport that throws, or a read that never
  returns, is outside the model.
\<close>

datatype hid_call = Write "number list" | ReadSync

record HID =
  calls :: "hid_call list"
  response :: "hid_call list \<Rightarrow> number list"

record Device =
  hid :: HID
  type :: DeviceType
  serialNumber :: string

definition hid_write :: "Device \<Rightarrow> number list \<Rightarrow> Device" where
  "hid_write device values =
     device\<lparr>hid := (hid device)\<lparr>calls := calls (hid device) @ [Write values]\<rparr>\<rparr>"

definition hid_readSync :: "Device \<Rightarrow> number list \<times> Device" where
  "hid_readSync device =
     (response (hid device) (calls (hid device)),
      device\<lparr>hid := (hid device)\<lparr>calls := calls (hid device) @ [ReadSync]\<rparr>\<rparr>)"

section \<open>The operations of the driver\<close>

text \<open>
  An operation takes the device and returns its outcome, the thrown error or the
  returned value, together with the device after the call.
\<close>

definition getMinimumBrightnessInLumenForDevice :: "Device \<Rightarrow> number" where
  "getMinimumBrightnessInLumenForDevice device =
     MINIMUM_BRIGHTNESS_IN_LUMEN_BY_DEVICE_TYPE (type device)"

definition getMaximumBrightnessInLumenForDevice :: "Device \<Rightarrow> number" where
  "getMaximumBrightnessInLumenForDevice device =
     MAXIMUM_BRIGHTNESS_IN_LUMEN_BY_DEVICE_TYPE (type device)"

definition getMinimumTemperatureInKelvinForDevice :: "Device \<Rightarrow> number option" where
  "getMinimumTemperatureInKelvinForDevice device =
     index (ALLOWED_TEMPERATURES_IN_KELVIN_BY_DEVICE_TYPE (type device)) 0"

definition getMaximumTemperatureInKelvinForDevice :: "Device \<Rightarrow> number option" where
  "getMaximumTemperatureInKelvinForDevice device =
     (let allowedTemperatures = ALLOWED_TEMPERATURES_IN_KELVIN_BY_DEVICE_TYPE (type device)
      in if length allowedTemperatures = 0 then None \<comment> \<open>index \<open>-1\<close> of an empty array\<close>
         else index allowedTemperatures (length allowedTemperatures - 1))"

definition getAllowedTemperaturesInKelvinForDevice :: "Device \<Rightarrow> number list" where
  "getAllowedTemperaturesInKelvinForDevice device =
     ALLOWED_TEMPERATURES_IN_KELVIN_BY_DEVICE_TYPE (type device)"

definition getDeviceTypeByProductId :: "number \<Rightarrow> error + DeviceType" where
  "getDeviceTypeByProductId productId =
     (if strict_equals (Some productId) (index PRODUCT_IDS 0) then Inr LitraGlow
      else if strict_equals (Some productId) (index PRODUCT_IDS 1)
            \<or> strict_equals (Some productId) (index PRODUCT_IDS 2)
            \<or> strict_equals (Some productId) (index PRODUCT_IDS 3) then Inr LitraBeam
      else Inl UnknownDeviceType)"

text \<open>
  Every write of the driver has the form \<open>device.hid.write(padRight(values, 20, 0x00))\<close>;
  \<open>send\<close> is that expression.
\<close>

definition send :: "Device \<Rightarrow> number list \<Rightarrow> (error + unit) \<times> Device" where
  "send device values =
     (case padRight values 20 (Number 0x00) of
        Inl e \<Rightarrow> (Inl e, device)
      | Inr frame \<Rightarrow> (Inr (), hid_write device frame))"

definition turnOn :: "Device \<Rightarrow> (error + unit) \<times> Device" where
  "turnOn device =
     send device [Number 0x11, Number 0xff, Number 0x06, Number 0x1c, Number 0x01]"

definition turnOff :: "Device \<Rightarrow> (error + unit) \<times> Device" where
  "turnOff device =
     send device [Number 0x11, Number 0xff, Number 0x06, Number 0x1c, Number 0x00]"

definition isOn :: "Device \<Rightarrow> (error + bool) \<times> Device" where
  "isOn device =
     (case send device [Number 0x11, Number 0xff, Number 0x06, Number 0x01] of
        (Inl e, device1) \<Rightarrow> (Inl e, device1)
      | (Inr u, device1) \<Rightarrow>
          (case hid_readSync device1 of
             (data, device2) \<Rightarrow> (Inr (strict_equals (index data 4) (Some (Number 1))), device2)))"

definition toggle :: "Device \<Rightarrow> (error + unit) \<times> Device" where
  "toggle device =
     (case isOn device of
        (Inl e, device1) \<Rightarrow> (Inl e, device1)
      | (Inr on, device1) \<Rightarrow> if on then turnOff device1 else turnOn device1)"

definition setTemperatureInKelvin :: "Device \<Rightarrow> number \<Rightarrow> (error + unit) \<times> Device" where
  "setTemperatureInKelvin device temperatureInKelvin =
     (if \<not> isInteger temperatureInKelvin then (Inl TemperatureNotInteger, device)
      else
        let minimumTemperature = getMinimumTemperatureInKelvinForDevice device;
            maximumTemperature = getMaximumTemperatureInKelvinForDevice device;
            allowedTemperatures = getAllowedTemperaturesInKelvinForDevice device
        in if \<not> array_includes allowedTemperatures temperatureInKelvin
           then (Inl (TemperatureNotAllowed minimumTemperature maximumTemperature), device)
           else send device
                  ([Number 0x11, Number 0xff, Number 0x06, Number 0x9c]
                     @ integerToBytes temperatureInKelvin))"

definition getTemperatureInKelvin :: "Device \<Rightarrow> (error + number) \<times> Device" where
  "getTemperatureInKelvin device =
     (case send device [Number 0x11, Number 0xff, Number 0x06, Number 0x81] of
        (Inl e, device1) \<Rightarrow> (Inl e, device1)
      | (Inr u, device1) \<Rightarrow>
          (case hid_readSync device1 of
             (data, device2) \<Rightarrow>
               (Inr (js_add (js_mul (toNumber (index data 4)) (Number 256))
                            (toNumber (index data 5))),
                device2)))"

definition setBrightnessInLumen :: "Device \<Rightarrow> number \<Rightarrow> (error + unit) \<times> Device" where
  "setBrightnessInLumen device brightnessInLumen =
     (if \<not> isInteger brightnessInLumen then (Inl BrightnessNotInteger, device)
      else
        let minimumBrightness = getMinimumBrightnessInLumenForDevice device;
            maximumBrightness = getMaximumBrightnessInLumenForDevice device
        in if js_less brightnessInLumen minimumBrightness
              \<or> js_greater brightnessInLumen maximumBrightness
           then (Inl (BrightnessOutOfRange minimumBrightness maximumBrightness), device)
           else send device
                  ([Number 0x11, Number 0xff, Number 0x06, Number 0x4c]
                     @ integerToBytes brightnessInLumen))"

definition setBrightnessPercentage :: "Device \<Rightarrow> number \<Rightarrow> (error + unit) \<times> Device" where
  "setBrightnessPercentage device brightnessPercentage =
     (if js_less brightnessPercentage (Number 0) \<or> js_greater brightnessPercentage (Number 100)
      then (Inl PercentageOutOfRange, device)
      else
        let minimumBrightness = getMinimumBrightnessInLumenForDevice device;
            maximumBrightness = getMaximumBrightnessInLumenForDevice device
        in setBrightnessInLumen device
             (if strict_equals (Some brightnessPercentage) (Some (Number 0))
              then minimumBrightness
              else percentageWithinRange brightnessPercentage minimumBrightness
                     maximumBrightness))"

section \<open>Auxiliary facts\<close>

subsection \<open>The table of allowed temperatures\<close>

text \<open>
  The table is a filter over 3801 integers; the lemmas below describe it without
  enumerating them.
\<close>

lemma filter_multiples:
  fixes s lo hi :: int
  assumes "0 < s"
  shows "filter (\<lambda>n. n mod s = 0) [lo..hi] = map (\<lambda>k. s * k) [- ((- lo) div s)..hi div s]"
proof (rule sorted_distinct_set_unique)
  show "sorted (filter (\<lambda>n. n mod s = 0) [lo..hi])" by (rule sorted_wrt_filter) (rule sorted_upto)
  show "distinct (filter (\<lambda>n. n mod s = 0) [lo..hi])" by (rule distinct_filter) (rule distinct_upto)
  show "sorted (map (\<lambda>k. s * k) [- ((- lo) div s)..hi div s])"
    using assms by (auto simp: sorted_map intro: sorted_wrt_mono_rel[OF _ sorted_upto])
  show "distinct (map (\<lambda>k. s * k) [- ((- lo) div s)..hi div s])"
    using assms by (simp add: distinct_map inj_on_def)
  show "set (filter (\<lambda>n. n mod s = 0) [lo..hi]) = set (map (\<lambda>k. s * k) [- ((- lo) div s)..hi div s])"
  proof (intro set_eqI iffI)
    fix n :: int assume "n \<in> set (filter (\<lambda>n. n mod s = 0) [lo..hi])"
    then have n: "lo \<le> n" "n \<le> hi" "n mod s = 0" by auto
    then obtain q where q: "n = s * q" by (metis mod_0_imp_dvd dvdE)
    have "n div s = q" using q assms by simp
    moreover have "- n = s * (- q)" using q by simp
    then have "(- n) div s = - q" using assms by (metis less_irrefl nonzero_mult_div_cancel_left)
    moreover have "n div s \<le> hi div s" using n assms by (simp add: zdiv_mono1)
    moreover have "(- lo) div s \<ge> (- n) div s" using n assms by (simp add: zdiv_mono1)
    ultimately have "- ((- lo) div s) \<le> q" "q \<le> hi div s" by linarith+
    then show "n \<in> set (map (\<lambda>k. s * k) [- ((- lo) div s)..hi div s])"
      using q by (auto simp: image_iff)
  next
    fix n :: int assume "n \<in> set (map (\<lambda>k. s * k) [- ((- lo) div s)..hi div s])"
    then obtain k where k: "n = s * k" "- ((- lo) div s) \<le> k" "k \<le> hi div s" by fastforce
    have "s * k \<le> hi"
    proof -
      have "s * k \<le> s * (hi div s)" using k assms by simp
      also have "\<dots> \<le> hi" using assms pos_mod_sign[of s hi] mult_div_mod_eq[of s hi] by linarith
      finally show ?thesis .
    qed
    moreover have "lo \<le> s * k"
    proof -
      have "- (s * k) \<le> s * ((- lo) div s)" using k assms
        by (metis minus_le_iff mult_le_cancel_left_pos mult_minus_right)
      also have "\<dots> \<le> - lo" using assms pos_mod_sign[of s "- lo"] mult_div_mod_eq[of s "- lo"] by linarith
      finally show ?thesis by simp
    qed
    ultimately show "n \<in> set (filter (\<lambda>n. n mod s = 0) [lo..hi])" using k by simp
  qed
qed

lemma MULTIPLES_eq:
  "MULTIPLES_OF_100_BETWEEN_2700_AND_6500 = map (\<lambda>k. Number (of_int (100 * k))) [27..65]"
proof -
  have lo: "- ((- 2700) div 100) = (27::int)" and hi: "6500 div 100 = (65::int)" by simp_all
  have "filter (\<lambda>n. n mod 100 = 0) [2700..6500]
          = map (\<lambda>k. 100 * k) [- ((- 2700) div 100)..6500 div (100::int)]"
    by (rule filter_multiples) simp
  then have "filter (\<lambda>n. n mod 100 = 0) [2700..6500] = map (\<lambda>k. 100 * k) [27..(65::int)]"
    unfolding lo hi .
  then show ?thesis
    unfolding MULTIPLES_OF_100_BETWEEN_2700_AND_6500_def multiplesWithinRange_def
    by (simp only: map_map o_def)
qed

lemma set_multiplesWithinRange:
  "set (multiplesWithinRange step low high)
     = {Number (of_int n) | n. low \<le> n \<and> n \<le> high \<and> n mod step = 0}"
  unfolding multiplesWithinRange_def by auto

lemma MULTIPLES_set:
  "set MULTIPLES_OF_100_BETWEEN_2700_AND_6500
     = {Number (of_int n) | n. 2700 \<le> n \<and> n \<le> 6500 \<and> n mod 100 = 0}"
  unfolding MULTIPLES_OF_100_BETWEEN_2700_AND_6500_def by (rule set_multiplesWithinRange)

lemma MULTIPLES_length: "length MULTIPLES_OF_100_BETWEEN_2700_AND_6500 = 39"
proof -
  have "nat (65 - 27 + 1) = (39::nat)" by simp
  then show ?thesis unfolding MULTIPLES_eq by (simp only: length_map length_upto)
qed

lemma MULTIPLES_first: "index MULTIPLES_OF_100_BETWEEN_2700_AND_6500 0 = Some (Number 2700)"
proof -
  have "[27..65::int] ! 0 = 27" by (simp add: upto_rec1[of 27 65])
  then have "MULTIPLES_OF_100_BETWEEN_2700_AND_6500 ! 0 = Number 2700"
    unfolding MULTIPLES_eq by simp
  then show ?thesis by (simp add: index_def MULTIPLES_length)
qed

lemma MULTIPLES_last: "index MULTIPLES_OF_100_BETWEEN_2700_AND_6500 38 = Some (Number 6500)"
proof -
  have "[27..65::int] ! 38 = 65" by (simp add: nth_upto)
  then have "MULTIPLES_OF_100_BETWEEN_2700_AND_6500 ! 38 = Number 6500"
    unfolding MULTIPLES_eq by simp
  then show ?thesis by (simp add: index_def MULTIPLES_length)
qed

lemma MULTIPLES_ascending: "sorted_wrt js_less MULTIPLES_OF_100_BETWEEN_2700_AND_6500"
proof -
  have "sorted_wrt (\<lambda>a b. js_less (Number (of_int (100 * a))) (Number (of_int (100 * b)))) [27..65]"
    by (rule sorted_wrt_mono_rel[OF _ sorted_wrt_upto]) simp
  then show ?thesis unfolding MULTIPLES_eq by (simp only: sorted_wrt_map)
qed

lemma distinct_multiplesWithinRange: "distinct (multiplesWithinRange step low high)"
  unfolding multiplesWithinRange_def by (simp add: distinct_map inj_on_def)

lemma MULTIPLES_distinct: "distinct MULTIPLES_OF_100_BETWEEN_2700_AND_6500"
  unfolding MULTIPLES_OF_100_BETWEEN_2700_AND_6500_def by (rule distinct_multiplesWithinRange)

lemma ALLOWED_eq:
  "ALLOWED_TEMPERATURES_IN_KELVIN_BY_DEVICE_TYPE t = MULTIPLES_OF_100_BETWEEN_2700_AND_6500"
  by (cases t) simp_all

lemma temperature_bounds:
  "getMinimumTemperatureInKelvinForDevice device = Some (Number 2700)
   \<and> getMaximumTemperatureInKelvinForDevice device = Some (Number 6500)"
proof -
  have "(39::nat) - 1 = 38" "(39::nat) \<noteq> 0" by simp_all
  then show ?thesis
    by (simp only: getMinimumTemperatureInKelvinForDevice_def
        getMaximumTemperatureInKelvinForDevice_def ALLOWED_eq Let_def MULTIPLES_length if_False
        MULTIPLES_first MULTIPLES_last simp_thms)
qed

lemma allowed_set:
  "set (getAllowedTemperaturesInKelvinForDevice device)
     = {Number (of_int n) | n. 2700 \<le> n \<and> n \<le> 6500 \<and> n mod 100 = 0}"
  by (simp only: getAllowedTemperaturesInKelvinForDevice_def ALLOWED_eq MULTIPLES_set)

lemma allowed_witness_int: "(\<exists>m. rat_of_int n = rat_of_int m \<and> 2700 \<le> m \<and> m \<le> 6500 \<and> m mod 100 = 0)
          \<longleftrightarrow> 2700 \<le> n \<and> n \<le> 6500 \<and> n mod 100 = 0"
  by simp

lemma allowed_iff:
  "Number (of_int n) \<in> set (getAllowedTemperaturesInKelvinForDevice device)
     \<longleftrightarrow> 2700 \<le> n \<and> n \<le> 6500 \<and> n mod 100 = 0"
  using allowed_witness_int [of n] by (simp only: allowed_set mem_Collect_eq number.inject)

subsection \<open>Numbers and frames\<close>

lemma strict_equals_Number:
  "strict_equals x (Some (Number r)) = (x = Some (Number r))"
  by (cases x) auto

lemma isInteger_of_int: "isInteger (Number (of_int n))"
  by simp

lemma not_isInteger_half: "\<not> isInteger (Number (101 / 2))"
  by code_simp

lemma not_isInteger_2750_half: "\<not> isInteger (Number (5501 / 2))"
  by code_simp

lemma length_integerToBytes: "length (integerToBytes a) = 2"
  by (cases a) simp_all

lemma send_short:
  "length values \<le> 20 \<Longrightarrow>
   send device values =
     (Inr (), device\<lparr>hid := (hid device)\<lparr>calls := calls (hid device)
        @ [Write (values @ replicate (20 - length values) (Number 0))]\<rparr>\<rparr>)"
  by (simp add: send_def padRight_def hid_write_def)

lemma send_six:
  "send device ([a, b, c, d] @ integerToBytes (Number (of_int n))) =
     (Inr (), device\<lparr>hid := (hid device)\<lparr>calls := calls (hid device)
        @ [Write ([a, b, c, d, Number (of_int (n div 256)), Number (of_int (n mod 256))]
                    @ replicate 14 (Number 0))]\<rparr>\<rparr>)"
  by (simp add: send_short)

lemma send_ok:
  "length values \<le> 20 \<Longrightarrow> fst (send device values) = Inr ()"
  by (simp add: send_short)

subsection \<open>Brightness bounds and the percentage scale\<close>

lemma brightness_bounds:
  "(getMinimumBrightnessInLumenForDevice device = Number 20
      \<and> getMaximumBrightnessInLumenForDevice device = Number 250)
   \<or> (getMinimumBrightnessInLumenForDevice device = Number 30
      \<and> getMaximumBrightnessInLumenForDevice device = Number 400)"
  unfolding getMinimumBrightnessInLumenForDevice_def getMaximumBrightnessInLumenForDevice_def
  by (cases "type device") simp_all

lemma brightness_bounds_int:
  "\<exists>lo hi. getMinimumBrightnessInLumenForDevice device = Number (of_int lo)
           \<and> getMaximumBrightnessInLumenForDevice device = Number (of_int hi)
           \<and> 0 \<le> lo \<and> lo \<le> hi"
proof -
  have "Number 20 = Number (rat_of_int 20) \<and> Number 250 = Number (rat_of_int 250)
        \<and> Number 30 = Number (rat_of_int 30) \<and> Number 400 = Number (rat_of_int 400)"
    by simp
  moreover have "(0::int) \<le> 20 \<and> (20::int) \<le> 250 \<and> (0::int) \<le> 30 \<and> (30::int) \<le> 400"
    by simp
  ultimately show ?thesis using brightness_bounds [of device] by metis
qed

lemma setBrightnessInLumen_ok:
  "lo \<le> n \<Longrightarrow> n \<le> hi
   \<Longrightarrow> getMinimumBrightnessInLumenForDevice device = Number (of_int lo)
   \<Longrightarrow> getMaximumBrightnessInLumenForDevice device = Number (of_int hi)
   \<Longrightarrow> fst (setBrightnessInLumen device (Number (of_int n))) = Inr ()"
  unfolding setBrightnessInLumen_def Let_def send_six
  by (simp add: js_greater_def)

lemma setBrightnessInLumen_error:
  "fst (setBrightnessInLumen device b) = Inl e
   \<Longrightarrow> e = BrightnessNotInteger
       \<or> e = BrightnessOutOfRange (getMinimumBrightnessInLumenForDevice device)
                                   (getMaximumBrightnessInLumenForDevice device)"
proof -
  have s: "\<And>a b c d x. fst (send device ([a, b, c, d] @ integerToBytes x)) = Inr ()"
    by (rule send_ok) (simp add: length_integerToBytes)
  assume "fst (setBrightnessInLumen device b) = Inl e"
  then show ?thesis
    using s by (auto simp add: setBrightnessInLumen_def Let_def split: if_splits)
qed

lemma floor_plus_half: "\<lfloor>rat_of_int k + 1 / 2\<rfloor> = k"
  by (rule floor_unique) simp_all

lemma nearest_between:
  fixes x :: rat
  assumes "of_int lo \<le> x" "x \<le> of_int hi"
  shows "lo \<le> \<lfloor>x + 1 / 2\<rfloor> \<and> \<lfloor>x + 1 / 2\<rfloor> \<le> hi"
proof
  have "rat_of_int lo \<le> x + 1 / 2" using assms(1) by simp
  then show "lo \<le> \<lfloor>x + 1 / 2\<rfloor>" by (simp only: le_floor_iff)
  have "x + 1 / 2 < rat_of_int hi + 1" using assms(2) by simp
  then show "\<lfloor>x + 1 / 2\<rfloor> \<le> hi" by (simp only: floor_le_iff)
qed

lemma percentageWithinRange_between:
  assumes "0 \<le> r" "r \<le> 100" "0 \<le> lo" "lo \<le> hi"
  shows "\<exists>n. percentageWithinRange (Number r) (Number (of_int lo)) (Number (of_int hi))
               = Number (of_int n) \<and> lo \<le> n \<and> n \<le> hi"
proof -
  let ?x = "rat_of_int lo + r / 100 * (rat_of_int hi - rat_of_int lo)"
  have d: "0 \<le> rat_of_int hi - rat_of_int lo" using assms(4) by simp
  have a: "0 \<le> r / 100" "r / 100 \<le> 1" using assms(1,2) by simp_all
  have "0 \<le> r / 100 * (rat_of_int hi - rat_of_int lo)"
    by (rule mult_nonneg_nonneg [OF a(1) d])
  moreover have "r / 100 * (rat_of_int hi - rat_of_int lo) \<le> rat_of_int hi - rat_of_int lo"
    by (rule mult_left_le_one_le [OF d a])
  ultimately have x: "rat_of_int lo \<le> ?x" "?x \<le> rat_of_int hi" by linarith+
  have "0 \<le> ?x" using x(1) assms(3) by (meson of_int_0_le_iff order_trans)
  then have "percentageWithinRange (Number r) (Number (of_int lo)) (Number (of_int hi))
          = Number (of_int \<lfloor>?x + 1 / 2\<rfloor>)"
    by (simp add: percentageWithinRange_def js_sub_def)
  then show ?thesis using nearest_between [OF x] by blast
qed

lemma percentageWithinRange_NaN: "percentageWithinRange NaN (Number a) (Number b) = NaN"
  by (simp add: percentageWithinRange_def js_sub_def)

lemma percentageWithinRange_100:
  "percentageWithinRange (Number 100) (Number (of_int lo)) (Number (of_int hi))
     = (if 0 \<le> hi then Number (of_int hi) else Number (of_int \<lceil>rat_of_int hi - 1 / 2\<rceil>))"
  by (simp add: percentageWithinRange_def js_sub_def floor_plus_half)

lemma percentage_examples:
  "percentageWithinRange (Number 50) (Number 20) (Number 250) = Number 135"
  "percentageWithinRange (Number (101 / 2)) (Number 20) (Number 250) = Number 136"
  by code_simp+

section \<open>The claims\<close>

text \<open>
  C1. For every device and every percentage \<open>r\<close> in \<open>[0, 100]\<close>,
  \<open>setBrightnessPercentage\<close> is \<open>setBrightnessInLumen\<close> at an integer lumen value that is
  neither below the minimum nor above the maximum of the device's variant, and the call
  succeeds. At 0 the value is the minimum itself, taken by the branch of the source
  that bypasses the scaling, and at 100 it is the maximum. A percentage below 0 or above
  100 throws \<open>'Percentage must be between 0 and 100'\<close>, and every argument that is not
  a number in \<open>[0, 100]\<close> (\<open>NaN\<close> and the infinities included) ends in an error with the
  device left as it was, so nothing has been written.
\<close>

theorem setBrightnessPercentage_range:
  "(0 \<le> r \<and> r \<le> 100 \<longrightarrow>
      (\<exists>n. (if r = 0 then getMinimumBrightnessInLumenForDevice device
              else percentageWithinRange (Number r)
                     (getMinimumBrightnessInLumenForDevice device)
                     (getMaximumBrightnessInLumenForDevice device)) = Number (of_int n)
           \<and> \<not> js_less (Number (of_int n)) (getMinimumBrightnessInLumenForDevice device)
           \<and> \<not> js_greater (Number (of_int n)) (getMaximumBrightnessInLumenForDevice device)
           \<and> setBrightnessPercentage device (Number r)
               = setBrightnessInLumen device (Number (of_int n))
           \<and> fst (setBrightnessPercentage device (Number r)) = Inr ()))
   \<and> setBrightnessPercentage device (Number 0)
       = setBrightnessInLumen device (getMinimumBrightnessInLumenForDevice device)
   \<and> setBrightnessPercentage device (Number 100)
       = setBrightnessInLumen device (getMaximumBrightnessInLumenForDevice device)
   \<and> (js_less p (Number 0) \<or> js_greater p (Number 100)
       \<longrightarrow> setBrightnessPercentage device p = (Inl PercentageOutOfRange, device))
   \<and> ((\<forall>q. p = Number q \<longrightarrow> q < 0 \<or> 100 < q)
       \<longrightarrow> (\<exists>e. setBrightnessPercentage device p = (Inl e, device)))"
proof -
  obtain lo hi where b:
    "getMinimumBrightnessInLumenForDevice device = Number (of_int lo)"
    "getMaximumBrightnessInLumenForDevice device = Number (of_int hi)"
    "0 \<le> lo" "lo \<le> hi"
    using brightness_bounds_int [of device] by blast
  have in_range: "\<exists>n. (if r = 0 then getMinimumBrightnessInLumenForDevice device
              else percentageWithinRange (Number r)
                     (getMinimumBrightnessInLumenForDevice device)
                     (getMaximumBrightnessInLumenForDevice device)) = Number (of_int n)
           \<and> \<not> js_less (Number (of_int n)) (getMinimumBrightnessInLumenForDevice device)
           \<and> \<not> js_greater (Number (of_int n)) (getMaximumBrightnessInLumenForDevice device)
           \<and> setBrightnessPercentage device (Number r)
               = setBrightnessInLumen device (Number (of_int n))
           \<and> fst (setBrightnessPercentage device (Number r)) = Inr ()"
    if r: "0 \<le> r \<and> r \<le> 100"
  proof -
    obtain n where n:
      "(if r = 0 then Number (of_int lo)
        else percentageWithinRange (Number r) (Number (of_int lo)) (Number (of_int hi)))
         = Number (of_int n)" "lo \<le> n" "n \<le> hi"
    proof (cases "r = 0")
      case True
      with b(4) that [of lo] show ?thesis by simp
    next
      case False
      with percentageWithinRange_between [of r lo hi] r b(3,4) that show ?thesis by auto
    qed
    have e: "setBrightnessPercentage device (Number r)
               = setBrightnessInLumen device (Number (of_int n))"
      using r n(1) by (simp add: setBrightnessPercentage_def Let_def js_greater_def b(1,2))
    have "fst (setBrightnessInLumen device (Number (of_int n))) = Inr ()"
      by (rule setBrightnessInLumen_ok [OF n(2,3) b(1,2)])
    with e n show ?thesis by (auto simp add: b(1,2) js_greater_def)
  qed
  have zero: "setBrightnessPercentage device (Number 0)
       = setBrightnessInLumen device (getMinimumBrightnessInLumenForDevice device)"
    by (simp add: setBrightnessPercentage_def Let_def js_greater_def)
  have hundred: "setBrightnessPercentage device (Number 100)
       = setBrightnessInLumen device (getMaximumBrightnessInLumenForDevice device)"
    using b(3,4)
    by (simp add: setBrightnessPercentage_def Let_def js_greater_def b(1,2)
        percentageWithinRange_100)
  have guard: "setBrightnessPercentage device p = (Inl PercentageOutOfRange, device)"
    if "js_less p (Number 0) \<or> js_greater p (Number 100)"
    using that by (simp add: setBrightnessPercentage_def)
  have outside: "\<exists>e. setBrightnessPercentage device p = (Inl e, device)"
    if o: "\<forall>q. p = Number q \<longrightarrow> q < 0 \<or> 100 < q"
  proof (cases p)
    case (Number q)
    with o have "js_less p (Number 0) \<or> js_greater p (Number 100)"
      by (simp add: js_greater_def)
    then show ?thesis using guard by blast
  next
    case Infinity
    then show ?thesis using guard by (simp add: js_greater_def)
  next
    case NegInfinity
    then show ?thesis using guard by (simp add: js_greater_def)
  next
    case NaN
    then have "setBrightnessPercentage device p = (Inl BrightnessNotInteger, device)"
      by (simp add: setBrightnessPercentage_def Let_def js_greater_def b(1,2)
          percentageWithinRange_NaN setBrightnessInLumen_def)
    then show ?thesis by blast
  qed
  show ?thesis using in_range zero hundred guard outside by blast
qed

theorem setBrightnessPercentage_range_witness:
  "(0::rat) \<le> 50 \<and> (50::rat) \<le> 100
   \<and> setBrightnessPercentage
        \<lparr>hid = \<lparr>calls = [], response = (\<lambda>cs. [])\<rparr>, type = LitraGlow, serialNumber = ''A''\<rparr>
        (Number 50)
       = (Inr (),
          \<lparr>hid = \<lparr>calls = [Write ([Number 17, Number 255, Number 6, Number 76, Number 0, Number 135]
                                      @ replicate 14 (Number 0))],
                   response = (\<lambda>cs. [])\<rparr>, type = LitraGlow, serialNumber = ''A''\<rparr>)
   \<and> js_greater (Number 101) (Number 100)
   \<and> setBrightnessPercentage
        \<lparr>hid = \<lparr>calls = [], response = (\<lambda>cs. [])\<rparr>, type = LitraGlow, serialNumber = ''A''\<rparr>
        (Number 101)
       = (Inl PercentageOutOfRange,
          \<lparr>hid = \<lparr>calls = [], response = (\<lambda>cs. [])\<rparr>, type = LitraGlow, serialNumber = ''A''\<rparr>)
   \<and> (\<exists>e. setBrightnessPercentage
        \<lparr>hid = \<lparr>calls = [], response = (\<lambda>cs. [])\<rparr>, type = LitraGlow, serialNumber = ''A''\<rparr>
        NaN
       = (Inl e,
          \<lparr>hid = \<lparr>calls = [], response = (\<lambda>cs. [])\<rparr>, type = LitraGlow, serialNumber = ''A''\<rparr>))"
proof -
  let ?d = "\<lparr>hid = \<lparr>calls = [], response = (\<lambda>cs. [])\<rparr>, type = LitraGlow,
             serialNumber = ''A''\<rparr>"
  have m: "getMinimumBrightnessInLumenForDevice ?d = Number 20"
    "getMaximumBrightnessInLumenForDevice ?d = Number 250"
    by (simp_all add: getMinimumBrightnessInLumenForDevice_def
        getMaximumBrightnessInLumenForDevice_def)
  have l: "setBrightnessInLumen ?d (Number (rat_of_int 135))
       = (Inr (),
          \<lparr>hid = \<lparr>calls = [Write ([Number 17, Number 255, Number 6, Number 76, Number 0, Number 135]
                                      @ replicate 14 (Number 0))],
                   response = (\<lambda>cs. [])\<rparr>, type = LitraGlow, serialNumber = ''A''\<rparr>)"
    unfolding setBrightnessInLumen_def Let_def send_six m
    by (simp add: js_greater_def)
  from setBrightnessPercentage_range [of 50 ?d "Number 101"]
  obtain n where n: "Number 135 = Number (rat_of_int n)"
    "setBrightnessPercentage ?d (Number 50) = setBrightnessInLumen ?d (Number (rat_of_int n))"
    unfolding m by (auto simp add: percentage_examples)
  from n(1) have "n = 135" by simp
  with n(2) l have a: "setBrightnessPercentage ?d (Number 50)
       = (Inr (),
          \<lparr>hid = \<lparr>calls = [Write ([Number 17, Number 255, Number 6, Number 76, Number 0, Number 135]
                                      @ replicate 14 (Number 0))],
                   response = (\<lambda>cs. [])\<rparr>, type = LitraGlow, serialNumber = ''A''\<rparr>)"
    by simp
  have g: "js_greater (Number 101) (Number 100)" by (simp add: js_greater_def)
  with setBrightnessPercentage_range [of 50 ?d "Number 101"]
  have b: "setBrightnessPercentage ?d (Number 101) = (Inl PercentageOutOfRange, ?d)" by blast
  have "\<forall>q. NaN = Number q \<longrightarrow> q < 0 \<or> 100 < q" by simp
  with setBrightnessPercentage_range [of 50 ?d NaN]
  have c: "\<exists>e. setBrightnessPercentage ?d NaN = (Inl e, ?d)" by blast
  show ?thesis using a g b c by simp
qed

text \<open>
  C2. \<open>setTemperatureInKelvin\<close> throws \<open>'Provided temperature must be an integer'\<close> on a
  temperature that is not an integer, and the range error naming 2700 and 6500 on
  every integer that is not in the device's allowed temperatures (2750 and 6600 among
  them). On every allowed temperature it returns normally and adds exactly one write to
  the handle: the 20-byte frame of the header \<open>[0x11, 0xff, 0x06, 0x9c]\<close>, the high byte
  \<open>n div 256\<close>, the low byte \<open>n mod 256\<close> and fourteen zero bytes.
\<close>

theorem setTemperatureInKelvin_cases:
  "(\<not> isInteger t \<longrightarrow> setTemperatureInKelvin device t = (Inl TemperatureNotInteger, device))
   \<and> (isInteger t \<and> t \<notin> set (getAllowedTemperaturesInKelvinForDevice device)
       \<longrightarrow> setTemperatureInKelvin device t
             = (Inl (TemperatureNotAllowed (Some (Number 2700)) (Some (Number 6500))), device))
   \<and> (t \<in> set (getAllowedTemperaturesInKelvinForDevice device)
       \<longrightarrow> (\<exists>n. t = Number (of_int n) \<and> 2700 \<le> n \<and> n \<le> 6500
              \<and> setTemperatureInKelvin device t
                  = (Inr (), device\<lparr>hid := (hid device)\<lparr>calls := calls (hid device)
                       @ [Write ([Number 0x11, Number 0xff, Number 0x06, Number 0x9c,
                                  Number (of_int (n div 256)), Number (of_int (n mod 256))]
                                   @ replicate 14 (Number 0x00))]\<rparr>\<rparr>)))"
proof (intro conjI impI)
  show "\<not> isInteger t \<Longrightarrow> setTemperatureInKelvin device t = (Inl TemperatureNotInteger, device)"
    by (simp add: setTemperatureInKelvin_def)
  show "isInteger t \<and> t \<notin> set (getAllowedTemperaturesInKelvinForDevice device)
       \<Longrightarrow> setTemperatureInKelvin device t
             = (Inl (TemperatureNotAllowed (Some (Number 2700)) (Some (Number 6500))), device)"
    by (simp add: setTemperatureInKelvin_def Let_def array_includes_def temperature_bounds)
  assume "t \<in> set (getAllowedTemperaturesInKelvinForDevice device)"
  then obtain n where n: "t = Number (of_int n)" "2700 \<le> n" "n \<le> 6500"
    unfolding allowed_set by blast
  have "setTemperatureInKelvin device (Number (of_int n))
          = (Inr (), device\<lparr>hid := (hid device)\<lparr>calls := calls (hid device)
               @ [Write ([Number 0x11, Number 0xff, Number 0x06, Number 0x9c,
                          Number (of_int (n div 256)), Number (of_int (n mod 256))]
                           @ replicate 14 (Number 0x00))]\<rparr>\<rparr>)"
    using \<open>t \<in> set (getAllowedTemperaturesInKelvinForDevice device)\<close>
    unfolding setTemperatureInKelvin_def Let_def send_six n(1)
    by (simp add: isInteger_of_int array_includes_def)
  with n show "\<exists>n. t = Number (of_int n) \<and> 2700 \<le> n \<and> n \<le> 6500
              \<and> setTemperatureInKelvin device t
                  = (Inr (), device\<lparr>hid := (hid device)\<lparr>calls := calls (hid device)
                       @ [Write ([Number 0x11, Number 0xff, Number 0x06, Number 0x9c,
                                  Number (of_int (n div 256)), Number (of_int (n mod 256))]
                                   @ replicate 14 (Number 0x00))]\<rparr>\<rparr>)"
    by blast
qed

theorem setTemperatureInKelvin_cases_witness:
  "\<not> isInteger (Number (5501 / 2))
   \<and> setTemperatureInKelvin
        \<lparr>hid = \<lparr>calls = [], response = (\<lambda>cs. [])\<rparr>, type = LitraBeam, serialNumber = ''A''\<rparr>
        (Number (5501 / 2))
       = (Inl TemperatureNotInteger,
          \<lparr>hid = \<lparr>calls = [], response = (\<lambda>cs. [])\<rparr>, type = LitraBeam, serialNumber = ''A''\<rparr>)
   \<and> isInteger (Number 2750)
   \<and> setTemperatureInKelvin
        \<lparr>hid = \<lparr>calls = [], response = (\<lambda>cs. [])\<rparr>, type = LitraBeam, serialNumber = ''A''\<rparr>
        (Number 2750)
       = (Inl (TemperatureNotAllowed (Some (Number 2700)) (Some (Number 6500))),
          \<lparr>hid = \<lparr>calls = [], response = (\<lambda>cs. [])\<rparr>, type = LitraBeam, serialNumber = ''A''\<rparr>)
   \<and> isInteger (Number 6600)
   \<and> setTemperatureInKelvin
        \<lparr>hid = \<lparr>calls = [], response = (\<lambda>cs. [])\<rparr>, type = LitraBeam, serialNumber = ''A''\<rparr>
        (Number 6600)
       = (Inl (TemperatureNotAllowed (Some (Number 2700)) (Some (Number 6500))),
          \<lparr>hid = \<lparr>calls = [], response = (\<lambda>cs. [])\<rparr>, type = LitraBeam, serialNumber = ''A''\<rparr>)
   \<and> setTemperatureInKelvin
        \<lparr>hid = \<lparr>calls = [], response = (\<lambda>cs. [])\<rparr>, type = LitraBeam, serialNumber = ''A''\<rparr>
        (Number 2700)
       = (Inr (),
          \<lparr>hid = \<lparr>calls = [Write ([Number 17, Number 255, Number 6, Number 156, Number 10, Number 140]
                                      @ replicate 14 (Number 0))],
                   response = (\<lambda>cs. [])\<rparr>, type = LitraBeam, serialNumber = ''A''\<rparr>)"
  using not_isInteger_2750_half
    allowed_iff [of 2750
      "\<lparr>hid = \<lparr>calls = [], response = (\<lambda>cs. [])\<rparr>, type = LitraBeam, serialNumber = ''A''\<rparr>"]
    allowed_iff [of 6600
      "\<lparr>hid = \<lparr>calls = [], response = (\<lambda>cs. [])\<rparr>, type = LitraBeam, serialNumber = ''A''\<rparr>"]
    allowed_iff [of 2700
      "\<lparr>hid = \<lparr>calls = [], response = (\<lambda>cs. [])\<rparr>, type = LitraBeam, serialNumber = ''A''\<rparr>"]
    setTemperatureInKelvin_cases [of "Number (5501 / 2)"
      "\<lparr>hid = \<lparr>calls = [], response = (\<lambda>cs. [])\<rparr>, type = LitraBeam, serialNumber = ''A''\<rparr>"]
    setTemperatureInKelvin_cases [of "Number 2750"
      "\<lparr>hid = \<lparr>calls = [], response = (\<lambda>cs. [])\<rparr>, type = LitraBeam, serialNumber = ''A''\<rparr>"]
    setTemperatureInKelvin_cases [of "Number 6600"
      "\<lparr>hid = \<lparr>calls = [], response = (\<lambda>cs. [])\<rparr>, type = LitraBeam, serialNumber = ''A''\<rparr>"]
    setTemperatureInKelvin_cases [of "Number 2700"
      "\<lparr>hid = \<lparr>calls = [], response = (\<lambda>cs. [])\<rparr>, type = LitraBeam, serialNumber = ''A''\<rparr>"]
  by auto

text \<open>
  C3. \<open>setBrightnessInLumen\<close> throws \<open>'Provided brightness must be an integer'\<close> on a
  brightness that is not an integer (50.5), and the range error on every integer below
  the minimum or above the maximum of the device's variant. On every integer \<open>n\<close> that is
  neither, it returns normally and adds exactly one write to the handle: the 20-byte
  frame of the header \<open>[0x11, 0xff, 0x06, 0x4c]\<close>, the bytes \<open>n div 256\<close> and
  \<open>n mod 256\<close>, and fourteen zero bytes. It succeeds at the minimum and at the maximum.
\<close>

theorem setBrightnessInLumen_cases:
  "(\<not> isInteger b \<longrightarrow> setBrightnessInLumen device b = (Inl BrightnessNotInteger, device))
   \<and> (isInteger b
        \<and> (js_less b (getMinimumBrightnessInLumenForDevice device)
             \<or> js_greater b (getMaximumBrightnessInLumenForDevice device))
       \<longrightarrow> setBrightnessInLumen device b
             = (Inl (BrightnessOutOfRange (getMinimumBrightnessInLumenForDevice device)
                                          (getMaximumBrightnessInLumenForDevice device)),
                device))
   \<and> (\<not> js_less (Number (of_int n)) (getMinimumBrightnessInLumenForDevice device)
        \<and> \<not> js_greater (Number (of_int n)) (getMaximumBrightnessInLumenForDevice device)
       \<longrightarrow> setBrightnessInLumen device (Number (of_int n))
             = (Inr (), device\<lparr>hid := (hid device)\<lparr>calls := calls (hid device)
                  @ [Write ([Number 0x11, Number 0xff, Number 0x06, Number 0x4c,
                             Number (of_int (n div 256)), Number (of_int (n mod 256))]
                              @ replicate 14 (Number 0x00))]\<rparr>\<rparr>))
   \<and> fst (setBrightnessInLumen device (getMinimumBrightnessInLumenForDevice device)) = Inr ()
   \<and> fst (setBrightnessInLumen device (getMaximumBrightnessInLumenForDevice device)) = Inr ()"
proof (intro conjI impI)
  show "\<not> isInteger b \<Longrightarrow> setBrightnessInLumen device b = (Inl BrightnessNotInteger, device)"
    by (simp add: setBrightnessInLumen_def)
  show "isInteger b
        \<and> (js_less b (getMinimumBrightnessInLumenForDevice device)
             \<or> js_greater b (getMaximumBrightnessInLumenForDevice device))
       \<Longrightarrow> setBrightnessInLumen device b
             = (Inl (BrightnessOutOfRange (getMinimumBrightnessInLumenForDevice device)
                                          (getMaximumBrightnessInLumenForDevice device)),
                device)"
    by (simp add: setBrightnessInLumen_def Let_def)
  show "\<not> js_less (Number (of_int n)) (getMinimumBrightnessInLumenForDevice device)
        \<and> \<not> js_greater (Number (of_int n)) (getMaximumBrightnessInLumenForDevice device)
       \<Longrightarrow> setBrightnessInLumen device (Number (of_int n))
             = (Inr (), device\<lparr>hid := (hid device)\<lparr>calls := calls (hid device)
                  @ [Write ([Number 0x11, Number 0xff, Number 0x06, Number 0x4c,
                             Number (of_int (n div 256)), Number (of_int (n mod 256))]
                              @ replicate 14 (Number 0x00))]\<rparr>\<rparr>)"
    unfolding setBrightnessInLumen_def Let_def send_six by (simp add: isInteger_of_int)
  show "fst (setBrightnessInLumen device (getMinimumBrightnessInLumenForDevice device)) = Inr ()"
    using brightness_bounds [of device]
    by (auto simp add: setBrightnessInLumen_def Let_def js_greater_def send_short)
  show "fst (setBrightnessInLumen device (getMaximumBrightnessInLumenForDevice device)) = Inr ()"
    using brightness_bounds [of device]
    by (auto simp add: setBrightnessInLumen_def Let_def js_greater_def send_short)
qed

theorem setBrightnessInLumen_cases_witness:
  "\<not> isInteger (Number (101 / 2))
   \<and> setBrightnessInLumen
        \<lparr>hid = \<lparr>calls = [], response = (\<lambda>cs. [])\<rparr>, type = LitraGlow, serialNumber = ''A''\<rparr>
        (Number (101 / 2))
       = (Inl BrightnessNotInteger,
          \<lparr>hid = \<lparr>calls = [], response = (\<lambda>cs. [])\<rparr>, type = LitraGlow, serialNumber = ''A''\<rparr>)
   \<and> isInteger (Number (- 1))
   \<and> js_less (Number (- 1)) (Number 20)
   \<and> setBrightnessInLumen
        \<lparr>hid = \<lparr>calls = [], response = (\<lambda>cs. [])\<rparr>, type = LitraGlow, serialNumber = ''A''\<rparr>
        (Number (- 1))
       = (Inl (BrightnessOutOfRange (Number 20) (Number 250)),
          \<lparr>hid = \<lparr>calls = [], response = (\<lambda>cs. [])\<rparr>, type = LitraGlow, serialNumber = ''A''\<rparr>)
   \<and> isInteger (Number 251)
   \<and> js_greater (Number 251) (Number 250)
   \<and> setBrightnessInLumen
        \<lparr>hid = \<lparr>calls = [], response = (\<lambda>cs. [])\<rparr>, type = LitraGlow, serialNumber = ''A''\<rparr>
        (Number 251)
       = (Inl (BrightnessOutOfRange (Number 20) (Number 250)),
          \<lparr>hid = \<lparr>calls = [], response = (\<lambda>cs. [])\<rparr>, type = LitraGlow, serialNumber = ''A''\<rparr>)
   \<and> setBrightnessInLumen
        \<lparr>hid = \<lparr>calls = [], response = (\<lambda>cs. [])\<rparr>, type = LitraGlow, serialNumber = ''A''\<rparr>
        (Number 20)
       = (Inr (),
          \<lparr>hid = \<lparr>calls = [Write ([Number 17, Number 255, Number 6, Number 76, Number 0, Number 20]
                                      @ replicate 14 (Number 0))],
                   response = (\<lambda>cs. [])\<rparr>, type = LitraGlow, serialNumber = ''A''\<rparr>)
   \<and> setBrightnessInLumen
        \<lparr>hid = \<lparr>calls = [], response = (\<lambda>cs. [])\<rparr>, type = LitraGlow, serialNumber = ''A''\<rparr>
        (Number 250)
       = (Inr (),
          \<lparr>hid = \<lparr>calls = [Write ([Number 17, Number 255, Number 6, Number 76, Number 0, Number 250]
                                      @ replicate 14 (Number 0))],
                   response = (\<lambda>cs. [])\<rparr>, type = LitraGlow, serialNumber = ''A''\<rparr>)"
  using not_isInteger_half
    setBrightnessInLumen_cases [of "Number (101 / 2)"
      "\<lparr>hid = \<lparr>calls = [], response = (\<lambda>cs. [])\<rparr>, type = LitraGlow, serialNumber = ''A''\<rparr>" 20]
    setBrightnessInLumen_cases [of "Number (- 1)"
      "\<lparr>hid = \<lparr>calls = [], response = (\<lambda>cs. [])\<rparr>, type = LitraGlow, serialNumber = ''A''\<rparr>" 250]
    setBrightnessInLumen_cases [of "Number 251"
      "\<lparr>hid = \<lparr>calls = [], response = (\<lambda>cs. [])\<rparr>, type = LitraGlow, serialNumber = ''A''\<rparr>" 250]
  by (simp add: getMinimumBrightnessInLumenForDevice_def getMaximumBrightnessInLumenForDevice_def
      js_greater_def)

text \<open>
  C4. Whenever \<open>setTemperatureInKelvin\<close>, \<open>setBrightnessInLumen\<close> or
  \<open>setBrightnessPercentage\<close> throws, the device after the call is the device before it:
  the calls made on the handle are unchanged, so no frame has been written.
\<close>

theorem validation_before_write:
  "(fst (setTemperatureInKelvin device t) = Inl e
      \<longrightarrow> snd (setTemperatureInKelvin device t) = device
          \<and> calls (hid (snd (setTemperatureInKelvin device t))) = calls (hid device))
   \<and> (fst (setBrightnessInLumen device b) = Inl e
      \<longrightarrow> snd (setBrightnessInLumen device b) = device
          \<and> calls (hid (snd (setBrightnessInLumen device b))) = calls (hid device))
   \<and> (fst (setBrightnessPercentage device p) = Inl e
      \<longrightarrow> snd (setBrightnessPercentage device p) = device
          \<and> calls (hid (snd (setBrightnessPercentage device p))) = calls (hid device))"
proof -
  have s: "\<And>a b c d x. fst (send device ([a, b, c, d] @ integerToBytes x)) = Inr ()"
    by (rule send_ok) (simp add: length_integerToBytes)
  have l: "\<And>x. fst (setBrightnessInLumen device x) = Inl e
              \<Longrightarrow> snd (setBrightnessInLumen device x) = device"
    using s by (auto simp add: setBrightnessInLumen_def Let_def split: if_splits)
  have t: "fst (setTemperatureInKelvin device t) = Inl e
              \<Longrightarrow> snd (setTemperatureInKelvin device t) = device"
    using s by (auto simp add: setTemperatureInKelvin_def Let_def split: if_splits)
  have p: "fst (setBrightnessPercentage device p) = Inl e
              \<Longrightarrow> snd (setBrightnessPercentage device p) = device"
    using l by (auto simp add: setBrightnessPercentage_def Let_def split: if_splits)
  show ?thesis using l t p by auto
qed

theorem validation_before_write_witness:
  "fst (setTemperatureInKelvin
         \<lparr>hid = \<lparr>calls = [ReadSync], response = (\<lambda>cs. [])\<rparr>, type = LitraGlow, serialNumber = ''A''\<rparr>
         (Number 2750))
     = Inl (TemperatureNotAllowed (Some (Number 2700)) (Some (Number 6500)))
   \<and> calls (hid (snd (setTemperatureInKelvin
         \<lparr>hid = \<lparr>calls = [ReadSync], response = (\<lambda>cs. [])\<rparr>, type = LitraGlow, serialNumber = ''A''\<rparr>
         (Number 2750)))) = [ReadSync]
   \<and> fst (setBrightnessInLumen
         \<lparr>hid = \<lparr>calls = [ReadSync], response = (\<lambda>cs. [])\<rparr>, type = LitraGlow, serialNumber = ''A''\<rparr>
         (Number 251))
     = Inl (BrightnessOutOfRange (Number 20) (Number 250))
   \<and> calls (hid (snd (setBrightnessInLumen
         \<lparr>hid = \<lparr>calls = [ReadSync], response = (\<lambda>cs. [])\<rparr>, type = LitraGlow, serialNumber = ''A''\<rparr>
         (Number 251)))) = [ReadSync]
   \<and> fst (setBrightnessPercentage
         \<lparr>hid = \<lparr>calls = [ReadSync], response = (\<lambda>cs. [])\<rparr>, type = LitraGlow, serialNumber = ''A''\<rparr>
         (Number 101))
     = Inl PercentageOutOfRange
   \<and> calls (hid (snd (setBrightnessPercentage
         \<lparr>hid = \<lparr>calls = [ReadSync], response = (\<lambda>cs. [])\<rparr>, type = LitraGlow, serialNumber = ''A''\<rparr>
         (Number 101)))) = [ReadSync]"
proof -
  let ?d = "\<lparr>hid = \<lparr>calls = [ReadSync], response = (\<lambda>cs. [])\<rparr>, type = LitraGlow,
             serialNumber = ''A''\<rparr>"
  have t: "fst (setTemperatureInKelvin ?d (Number 2750))
             = Inl (TemperatureNotAllowed (Some (Number 2700)) (Some (Number 6500)))"
    using allowed_iff [of 2750 ?d]
    by (simp add: setTemperatureInKelvin_def Let_def array_includes_def temperature_bounds)
  have b: "fst (setBrightnessInLumen ?d (Number 251))
             = Inl (BrightnessOutOfRange (Number 20) (Number 250))"
    by (simp add: setBrightnessInLumen_def Let_def js_greater_def
        getMinimumBrightnessInLumenForDevice_def getMaximumBrightnessInLumenForDevice_def)
  have p: "fst (setBrightnessPercentage ?d (Number 101)) = Inl PercentageOutOfRange"
    by (simp add: setBrightnessPercentage_def js_greater_def)
  show ?thesis
    using t b p
      validation_before_write [of ?d "Number 2750"
        "TemperatureNotAllowed (Some (Number 2700)) (Some (Number 6500))" "Number 0" "Number 0"]
      validation_before_write [of ?d "Number 0"
        "BrightnessOutOfRange (Number 20) (Number 250)" "Number 251" "Number 0"]
      validation_before_write [of ?d "Number 0" PercentageOutOfRange "Number 0" "Number 101"]
    by simp
qed

text \<open>
  C5. For every device, \<open>turnOn\<close> writes exactly the 20-byte sequence
  \<open>[0x11, 0xff, 0x06, 0x1c, 0x01]\<close> right-padded with fifteen zero bytes, and \<open>turnOff\<close>
  writes the same sequence except that its fifth byte is \<open>0x00\<close>. Each call returns
  normally and adds this one write, and nothing else, to the calls on the handle.
\<close>

theorem turnOn_turnOff_frames:
  "turnOn device =
     (Inr (), device\<lparr>hid := (hid device)\<lparr>calls := calls (hid device)
        @ [Write ([Number 0x11, Number 0xff, Number 0x06, Number 0x1c, Number 0x01]
                    @ replicate 15 (Number 0x00))]\<rparr>\<rparr>)
   \<and> turnOff device =
     (Inr (), device\<lparr>hid := (hid device)\<lparr>calls := calls (hid device)
        @ [Write ([Number 0x11, Number 0xff, Number 0x06, Number 0x1c, Number 0x00]
                    @ replicate 15 (Number 0x00))]\<rparr>\<rparr>)"
  by (simp add: turnOn_def turnOff_def send_short)

text \<open>
  C6. For every device, \<open>toggle\<close> makes exactly three calls on the handle: the write of
  the power query, a \<open>readSync\<close>, and one further write, which is the frame of
  \<open>turnOff\<close> when the byte at offset 4 of the response is 1 and the frame of \<open>turnOn\<close>
  otherwise. It never writes both.
\<close>

theorem toggle_calls:
  "toggle device =
     (let query = [Number 0x11, Number 0xff, Number 0x06, Number 0x01] @ replicate 16 (Number 0x00);
          data = response (hid device) (calls (hid device) @ [Write query]);
          power = (if index data 4 = Some (Number 1) then Number 0x00 else Number 0x01)
      in (Inr (), device\<lparr>hid := (hid device)\<lparr>calls := calls (hid device)
            @ [Write query, ReadSync,
               Write ([Number 0x11, Number 0xff, Number 0x06, Number 0x1c, power]
                        @ replicate 15 (Number 0x00))]\<rparr>\<rparr>))"
proof -
  let ?query = "[Number 0x11, Number 0xff, Number 0x06, Number 0x01] @ replicate 16 (Number 0x00)"
  let ?data = "response (hid device) (calls (hid device) @ [Write ?query])"
  have "isOn device =
          (Inr (index ?data 4 = Some (Number 1)),
           device\<lparr>hid := (hid device)\<lparr>calls := calls (hid device) @ [Write ?query, ReadSync]\<rparr>\<rparr>)"
    unfolding isOn_def by (simp add: send_short hid_readSync_def strict_equals_Number)
  then show ?thesis
    by (simp add: toggle_def turnOn_def turnOff_def send_short Let_def)
qed

text \<open>
  C7. For every device, \<open>getAllowedTemperaturesInKelvinForDevice\<close> returns exactly the 39
  multiples of 100 from 2700 to 6500, strictly ascending and without duplicates;
  \<open>getMinimumTemperatureInKelvinForDevice\<close> returns its first element, 2700, and
  \<open>getMaximumTemperatureInKelvinForDevice\<close> its last, 6500.
\<close>

theorem allowed_temperatures:
  "getAllowedTemperaturesInKelvinForDevice device = map (\<lambda>k. Number (of_int (100 * k))) [27..65]
   \<and> length (getAllowedTemperaturesInKelvinForDevice device) = 39
   \<and> set (getAllowedTemperaturesInKelvinForDevice device)
       = {Number (of_int n) | n. 2700 \<le> n \<and> n \<le> 6500 \<and> n mod 100 = 0}
   \<and> sorted_wrt js_less (getAllowedTemperaturesInKelvinForDevice device)
   \<and> distinct (getAllowedTemperaturesInKelvinForDevice device)
   \<and> getMinimumTemperatureInKelvinForDevice device
       = index (getAllowedTemperaturesInKelvinForDevice device) 0
   \<and> getMinimumTemperatureInKelvinForDevice device = Some (Number 2700)
   \<and> getMaximumTemperatureInKelvinForDevice device
       = index (getAllowedTemperaturesInKelvinForDevice device) 38
   \<and> getMaximumTemperatureInKelvinForDevice device = Some (Number 6500)"
proof -
  have a: "getAllowedTemperaturesInKelvinForDevice device = MULTIPLES_OF_100_BETWEEN_2700_AND_6500"
    by (simp only: getAllowedTemperaturesInKelvinForDevice_def ALLOWED_eq)
  have lo: "getMinimumTemperatureInKelvinForDevice device
              = index MULTIPLES_OF_100_BETWEEN_2700_AND_6500 0"
    by (simp only: getMinimumTemperatureInKelvinForDevice_def ALLOWED_eq)
  have "(39::nat) - 1 = 38" "(39::nat) \<noteq> 0" by simp_all
  then have hi: "getMaximumTemperatureInKelvinForDevice device
              = index MULTIPLES_OF_100_BETWEEN_2700_AND_6500 38"
    by (simp only: getMaximumTemperatureInKelvinForDevice_def ALLOWED_eq Let_def
        MULTIPLES_length if_False)
  show ?thesis
    unfolding a lo hi
    by (intro conjI MULTIPLES_eq MULTIPLES_length MULTIPLES_set MULTIPLES_ascending
        MULTIPLES_distinct MULTIPLES_first MULTIPLES_last refl)
qed

text \<open>
  C8. For every integer \<open>n\<close> in \<open>[0, 65535]\<close>, \<open>integerToBytes\<close> yields the high byte
  \<open>n div 256\<close> and the low byte \<open>n mod 256\<close>, both in \<open>[0, 255]\<close>, and
  \<open>high * 256 + low\<close> is \<open>n\<close> again. This is the decoding of \<open>getTemperatureInKelvin\<close>:
  when the response carries the two bytes at offsets 4 and 5, it returns \<open>n\<close>.
\<close>

theorem integerToBytes_roundtrip:
  "0 \<le> n \<and> n \<le> 65535 \<longrightarrow>
     integerToBytes (Number (of_int n))
       = [Number (of_int (n div 256)), Number (of_int (n mod 256))]
     \<and> 0 \<le> n div 256 \<and> n div 256 \<le> 255 \<and> 0 \<le> n mod 256 \<and> n mod 256 \<le> 255
     \<and> js_add (js_mul (Number (of_int (n div 256))) (Number 256)) (Number (of_int (n mod 256)))
         = Number (of_int n)
     \<and> (let data = response (hid device)
                      (calls (hid device)
                         @ [Write ([Number 0x11, Number 0xff, Number 0x06, Number 0x81]
                                     @ replicate 16 (Number 0x00))])
        in index data 4 = index (integerToBytes (Number (of_int n))) 0
           \<and> index data 5 = index (integerToBytes (Number (of_int n))) 1
           \<longrightarrow> fst (getTemperatureInKelvin device) = Inr (Number (of_int n)))"
proof (intro impI)
  assume n: "0 \<le> n \<and> n \<le> 65535"
  have r: "rat_of_int (n div 256) * 256 + rat_of_int (n mod 256) = rat_of_int n"
  proof -
    have "rat_of_int (n div 256 * 256 + n mod 256) = rat_of_int n" by simp
    then show ?thesis by (simp only: of_int_add of_int_mult of_int_numeral)
  qed
  have b: "0 \<le> n div 256 \<and> n div 256 \<le> 255 \<and> 0 \<le> n mod 256 \<and> n mod 256 \<le> 255"
    using n by auto
  show "integerToBytes (Number (of_int n))
       = [Number (of_int (n div 256)), Number (of_int (n mod 256))]
     \<and> 0 \<le> n div 256 \<and> n div 256 \<le> 255 \<and> 0 \<le> n mod 256 \<and> n mod 256 \<le> 255
     \<and> js_add (js_mul (Number (of_int (n div 256))) (Number 256)) (Number (of_int (n mod 256)))
         = Number (of_int n)
     \<and> (let data = response (hid device)
                      (calls (hid device)
                         @ [Write ([Number 0x11, Number 0xff, Number 0x06, Number 0x81]
                                     @ replicate 16 (Number 0x00))])
        in index data 4 = index (integerToBytes (Number (of_int n))) 0
           \<and> index data 5 = index (integerToBytes (Number (of_int n))) 1
           \<longrightarrow> fst (getTemperatureInKelvin device) = Inr (Number (of_int n)))"
    using b r
    by (simp add: Let_def getTemperatureInKelvin_def send_short hid_readSync_def index_def
        del: of_int_add of_int_mult)
qed

theorem integerToBytes_roundtrip_witness:
  "(0::int) \<le> 2700 \<and> (2700::int) \<le> 65535
   \<and> integerToBytes (Number 2700) = [Number 10, Number 140]
   \<and> js_add (js_mul (Number 10) (Number 256)) (Number 140) = Number 2700
   \<and> fst (getTemperatureInKelvin
         \<lparr>hid = \<lparr>calls = [],
                  response = (\<lambda>cs. [Number 17, Number 255, Number 6, Number 129,
                                     Number 10, Number 140])\<rparr>,
          type = LitraGlow, serialNumber = ''A''\<rparr>) = Inr (Number 2700)"
  using integerToBytes_roundtrip [of 2700
      "\<lparr>hid = \<lparr>calls = [],
               response = (\<lambda>cs. [Number 17, Number 255, Number 6, Number 129,
                                  Number 10, Number 140])\<rparr>,
        type = LitraGlow, serialNumber = ''A''\<rparr>"]
  by (simp add: index_def)

text \<open>
  C9. \<open>getDeviceTypeByProductId\<close> returns the Glow variant for product id \<open>0xc900\<close>, the
  Beam variant for \<open>0xc901\<close>, \<open>0xb901\<close> and \<open>0xc903\<close>, and throws
  \<open>'Unknown device type'\<close> for every other product id.
\<close>

theorem getDeviceTypeByProductId_cases:
  "getDeviceTypeByProductId (Number 0xc900) = Inr LitraGlow
   \<and> getDeviceTypeByProductId (Number 0xc901) = Inr LitraBeam
   \<and> getDeviceTypeByProductId (Number 0xb901) = Inr LitraBeam
   \<and> getDeviceTypeByProductId (Number 0xc903) = Inr LitraBeam
   \<and> (productId \<notin> {Number 0xc900, Number 0xc901, Number 0xb901, Number 0xc903}
        \<longrightarrow> getDeviceTypeByProductId productId = Inl UnknownDeviceType)"
  by (simp add: getDeviceTypeByProductId_def PRODUCT_IDS_def index_def)

theorem getDeviceTypeByProductId_cases_witness:
  "Number 0x1234 \<notin> {Number 0xc900, Number 0xc901, Number 0xb901, Number 0xc903}
   \<and> getDeviceTypeByProductId (Number 0x1234) = Inl UnknownDeviceType
   \<and> NaN \<notin> {Number 0xc900, Number 0xc901, Number 0xb901, Number 0xc903}
   \<and> getDeviceTypeByProductId NaN = Inl UnknownDeviceType"
  using getDeviceTypeByProductId_cases [of "Number 0x1234"] getDeviceTypeByProductId_cases [of NaN]
  by simp

text \<open>
  C10. \<open>setBrightnessPercentage\<close> does not require an integer percentage: for every
  percentage strictly between 0 and 100 that is not an integer (50.5), the guard on
  \<open>[0, 100]\<close> passes, the call is \<open>setBrightnessInLumen\<close> at the scaled and rounded
  value, and its outcome is never the percentage error.
\<close>

theorem setBrightnessPercentage_not_integer:
  "0 < r \<and> r < 100 \<and> \<not> isInteger (Number r) \<longrightarrow>
     \<not> (js_less (Number r) (Number 0) \<or> js_greater (Number r) (Number 100))
     \<and> setBrightnessPercentage device (Number r)
         = setBrightnessInLumen device
             (percentageWithinRange (Number r)
                (getMinimumBrightnessInLumenForDevice device)
                (getMaximumBrightnessInLumenForDevice device))
     \<and> fst (setBrightnessPercentage device (Number r)) \<noteq> Inl PercentageOutOfRange"
proof (intro impI)
  assume r: "0 < r \<and> r < 100 \<and> \<not> isInteger (Number r)"
  have g: "\<not> (js_less (Number r) (Number 0) \<or> js_greater (Number r) (Number 100))"
    using r by (simp add: js_greater_def)
  have d: "setBrightnessPercentage device (Number r)
         = setBrightnessInLumen device
             (percentageWithinRange (Number r)
                (getMinimumBrightnessInLumenForDevice device)
                (getMaximumBrightnessInLumenForDevice device))"
    using r by (simp add: setBrightnessPercentage_def Let_def js_greater_def)
  have "fst (setBrightnessInLumen device
             (percentageWithinRange (Number r)
                (getMinimumBrightnessInLumenForDevice device)
                (getMaximumBrightnessInLumenForDevice device))) \<noteq> Inl PercentageOutOfRange"
    using setBrightnessInLumen_error [of device _ PercentageOutOfRange] by blast
  with g d show "\<not> (js_less (Number r) (Number 0) \<or> js_greater (Number r) (Number 100))
     \<and> setBrightnessPercentage device (Number r)
         = setBrightnessInLumen device
             (percentageWithinRange (Number r)
                (getMinimumBrightnessInLumenForDevice device)
                (getMaximumBrightnessInLumenForDevice device))
     \<and> fst (setBrightnessPercentage device (Number r)) \<noteq> Inl PercentageOutOfRange"
    by simp
qed

theorem setBrightnessPercentage_not_integer_witness:
  "(0::rat) < 101 / 2 \<and> (101::rat) / 2 < 100 \<and> \<not> isInteger (Number (101 / 2))
   \<and> \<not> (js_less (Number (101 / 2)) (Number 0) \<or> js_greater (Number (101 / 2)) (Number 100))
   \<and> setBrightnessPercentage
        \<lparr>hid = \<lparr>calls = [], response = (\<lambda>cs. [])\<rparr>, type = LitraGlow, serialNumber = ''A''\<rparr>
        (Number (101 / 2))
       = setBrightnessInLumen
           \<lparr>hid = \<lparr>calls = [], response = (\<lambda>cs. [])\<rparr>, type = LitraGlow, serialNumber = ''A''\<rparr>
           (Number 136)
   \<and> fst (setBrightnessPercentage
        \<lparr>hid = \<lparr>calls = [], response = (\<lambda>cs. [])\<rparr>, type = LitraGlow, serialNumber = ''A''\<rparr>
        (Number (101 / 2))) \<noteq> Inl PercentageOutOfRange"
proof -
  let ?d = "\<lparr>hid = \<lparr>calls = [], response = (\<lambda>cs. [])\<rparr>, type = LitraGlow,
             serialNumber = ''A''\<rparr>"
  have m: "getMinimumBrightnessInLumenForDevice ?d = Number 20"
    "getMaximumBrightnessInLumenForDevice ?d = Number 250"
    by (simp_all add: getMinimumBrightnessInLumenForDevice_def
        getMaximumBrightnessInLumenForDevice_def)
  have h: "(0::rat) < 101 / 2 \<and> (101::rat) / 2 < 100 \<and> \<not> isInteger (Number (101 / 2))"
    using not_isInteger_half by simp
  note t = setBrightnessPercentage_not_integer [of "101 / 2" ?d, THEN mp, OF h]
  show ?thesis
    by (rule conjI [OF h t [unfolded m percentage_examples(2)], unfolded conj_assoc])
qed

end
